theory Spec2Isabelle
  imports Main
begin

section \<open>The Noise protocol descriptor (noise/noise_protocol.py)\<close>

text \<open>
  A shallow embedding of the class \<^verbatim>\<open>NoiseProtocol\<close>: its constructor
  \<^verbatim>\<open>__init__\<close>, the name parser \<^verbatim>\<open>_parse_protocol_name\<close> and the
  finalizer \<^verbatim>\<open>handshake_done\<close>.

  Python values are modelled as follows.
  \<^item> \<^verbatim>\<open>bytes\<close> is a \<open>char list\<close> (a HOL \<open>char\<close> is one byte).
  \<^item> \<^verbatim>\<open>str\<close> is a list of Unicode code points (\<open>nat list\<close>); \<^verbatim>\<open>bytes.decode()\<close>
    is the strict UTF-8 decoder.
  \<^item> An exception is a value of type \<open>error\<close>; a function that may raise returns
    \<open>error + 'a\<close>.
  \<^item> The names imported from \<^verbatim>\<open>.constants\<close>, \<^verbatim>\<open>.functions\<close> and
    \<^verbatim>\<open>.patterns\<close> are not part of the file: they are the fields of the record \<open>env\<close>.
\<close>

subsection \<open>Python strings and bytes\<close>

type_synonym bytes = "char list"
type_synonym pystr = "nat list"

text \<open>A \<^verbatim>\<open>str\<close> literal of ASCII characters.\<close>

definition str :: "string \<Rightarrow> pystr" where
  "str s = map of_char s"

text \<open>A continuation byte of UTF-8: \<^verbatim>\<open>0x80 .. 0xBF\<close>.\<close>

definition cont :: "nat \<Rightarrow> bool" where
  "cont b = (128 \<le> b \<and> b \<le> 191)"

text \<open>
  \<^verbatim>\<open>bytes.decode()\<close> with the default arguments (\<^verbatim>\<open>'utf-8'\<close>, \<^verbatim>\<open>'strict'\<close>)
  over the byte values. \<open>None\<close> stands for \<^verbatim>\<open>UnicodeDecodeError\<close>: a stray or
  missing continuation byte, an overlong form (lead bytes \<^verbatim>\<open>C0\<close>, \<^verbatim>\<open>C1\<close>, \<^verbatim>\<open>E0\<close>
  before \<^verbatim>\<open>80..9F\<close>, \<^verbatim>\<open>F0\<close> before \<^verbatim>\<open>80..8F\<close>), a surrogate (\<^verbatim>\<open>ED\<close> before
  \<^verbatim>\<open>A0..BF\<close>) or a code point above \<^verbatim>\<open>U+10FFFF\<close>.
\<close>

fun utf8_decode :: "nat list \<Rightarrow> pystr option" where
  "utf8_decode [] = Some []"
| "utf8_decode (b0 # bs) =
     (if b0 < 128 then map_option ((#) b0) (utf8_decode bs)
      else if 194 \<le> b0 \<and> b0 \<le> 223 then
        (case bs of
           b1 # r \<Rightarrow>
             if cont b1
             then map_option ((#) ((b0 - 192) * 64 + (b1 - 128))) (utf8_decode r)
             else None
         | _ \<Rightarrow> None)
      else if 224 \<le> b0 \<and> b0 \<le> 239 then
        (case bs of
           b1 # b2 # r \<Rightarrow>
             if cont b1 \<and> cont b2
                \<and> (if b0 = 224 then 160 \<le> b1 else True)
                \<and> (if b0 = 237 then b1 \<le> 159 else True)
             then map_option
                    ((#) ((b0 - 224) * 4096 + (b1 - 128) * 64 + (b2 - 128)))
                    (utf8_decode r)
             else None
         | _ \<Rightarrow> None)
      else if 240 \<le> b0 \<and> b0 \<le> 244 then
        (case bs of
           b1 # b2 # b3 # r \<Rightarrow>
             if cont b1 \<and> cont b2 \<and> cont b3
                \<and> (if b0 = 240 then 144 \<le> b1 else True)
                \<and> (if b0 = 244 then b1 \<le> 143 else True)
             then map_option
                    ((#) ((b0 - 240) * 262144 + (b1 - 128) * 4096
                          + (b2 - 128) * 64 + (b3 - 128)))
                    (utf8_decode r)
             else None
         | _ \<Rightarrow> None)
      else None)"

definition decode :: "bytes \<Rightarrow> pystr option" where
  "decode b = utf8_decode (map of_char b)"

text \<open>
  \<^verbatim>\<open>s.split(sep)\<close> for a separator of one character: every occurrence of \<open>sep\<close>
  ends a piece, empty pieces are kept, and the result is never empty.
\<close>

fun py_split :: "'a \<Rightarrow> 'a list \<Rightarrow> 'a list list" where
  "py_split sep [] = [ [] ]"
| "py_split sep (c # cs) =
     (if c = sep then [] # py_split sep cs
      else (case py_split sep cs of
              w # ws \<Rightarrow> (c # w) # ws
            | [] \<Rightarrow> [ [c] ]))"

subsection \<open>Exceptions\<close>

text \<open>
  One constructor for each \<^verbatim>\<open>raise\<close> of the file and for each exception the
  interpreter raises in it. A constructor carries the values its message is formatted
  from.
\<close>

datatype error =
    NotBytes string
      \<comment> \<open>\<^verbatim>\<open>ValueError('Protocol name has to be of type "bytes", not {}')\<close>\<close>
  | NameTooLong nat
      \<comment> \<open>\<^verbatim>\<open>ValueError('Protocol name too long, has to be at most {} chars long')\<close>\<close>
  | UnicodeDecodeError
      \<comment> \<open>raised by \<^verbatim>\<open>self.name.decode()\<close>\<close>
  | BadPrefix bytes
      \<comment> \<open>\<^verbatim>\<open>ValueError('Noise Protocol name shall begin with Noise! Provided: {}')\<close>\<close>
  | IndexError
      \<comment> \<open>\<^verbatim>\<open>unpacked[i]\<close> out of range\<close>
  | UnknownPrimitive string pystr "pystr list"
      \<comment> \<open>\<^verbatim>\<open>ValueError('Unknown {} in Noise Protocol name, given {}, known {}')\<close>\<close>
  | InvalidPskLength
      \<comment> \<open>\<^verbatim>\<open>ValueError('Invalid psk length!')\<close>\<close>
  | BadPskCount int nat
      \<comment> \<open>\<^verbatim>\<open>ValueError('Bad number of PSKs provided to this protocol! {} are required, given {}')\<close>\<close>
  | AttributeError string
      \<comment> \<open>reading or deleting an attribute the object does not have\<close>
  | ModifierError pystr
      \<comment> \<open>whatever \<^verbatim>\<open>apply_pattern_modifiers\<close> raises\<close>

datatype exc_class = ValueError | IndexErrorClass | AttributeErrorClass | OtherClass

text \<open>
  The class an \<^verbatim>\<open>except\<close> clause sees. \<^verbatim>\<open>UnicodeDecodeError\<close> is a subclass of
  \<^verbatim>\<open>ValueError\<close>; \<^verbatim>\<open>IndexError\<close> (a \<^verbatim>\<open>LookupError\<close>) and
  \<^verbatim>\<open>AttributeError\<close> are not.
\<close>

fun class_of :: "error \<Rightarrow> exc_class" where
  "class_of (NotBytes _) = ValueError"
| "class_of (NameTooLong _) = ValueError"
| "class_of UnicodeDecodeError = ValueError"
| "class_of (BadPrefix _) = ValueError"
| "class_of IndexError = IndexErrorClass"
| "class_of (UnknownPrimitive _ _ _) = ValueError"
| "class_of InvalidPskLength = ValueError"
| "class_of (BadPskCount _ _) = ValueError"
| "class_of (AttributeError _) = AttributeErrorClass"
| "class_of (ModifierError _) = OtherClass"

text \<open>\<^verbatim>\<open>xs[i]\<close> for \<open>i \<ge> 0\<close>.\<close>

definition index :: "'a list \<Rightarrow> nat \<Rightarrow> error + 'a" where
  "index xs i = (if i < length xs then Inr (xs ! i) else Inl IndexError)"

subsection \<open>The imported names\<close>

text \<open>
  A pattern object, as far as this class reads it: \<^verbatim>\<open>psk_count\<close> and
  \<^verbatim>\<open>one_way\<close>.
\<close>

record Pattern =
  psk_count :: int
  one_way :: bool

text \<open>
  The registries are Python dictionaries: association lists, read with \<open>map_of\<close>, whose
  keys in order are what \<^verbatim>\<open>" ".join(map_dict)\<close> prints. \<open>patterns_map\<close> maps a key to
  a pattern class; the entry here is the instance that calling the class returns. The
  entries of all registries are classes and functions, which Python counts as true in
  \<^verbatim>\<open>if not func\<close>.
\<close>

record 'fn env =
  MAX_PROTOCOL_NAME_LEN :: nat
  patterns_map :: "(pystr \<times> Pattern) list"
  dh_map :: "(pystr \<times> 'fn) list"
  cipher_map :: "(pystr \<times> 'fn) list"
  hash_map :: "(pystr \<times> 'fn) list"
  keypair_map :: "(pystr \<times> 'fn) list"
  apply_pattern_modifiers :: "Pattern \<Rightarrow> pystr list \<Rightarrow> error + Pattern"
  unicode_isupper :: "nat \<Rightarrow> bool"

text \<open>
  \<^verbatim>\<open>char.isupper()\<close> for one character: \<^verbatim>\<open>A..Z\<close> among the ASCII characters, and
  what the Unicode database says for the others.
\<close>

definition isupper :: "'fn env \<Rightarrow> nat \<Rightarrow> bool" where
  "isupper env c = (if c < 128 then 65 \<le> c \<and> c \<le> 90 else unicode_isupper env c)"

subsection \<open>\<^verbatim>\<open>_parse_protocol_name\<close>\<close>

text \<open>
  The loop of lines 71 to 77: \<open>pattern\<close> collects the leading uppercase characters;
  at the first other character \<open>modifiers_str\<close> becomes the rest of the segment from
  that character on, and the loop ends. \<open>None\<close> is Python's \<^verbatim>\<open>None\<close>.
\<close>

fun scan_pattern :: "'fn env \<Rightarrow> pystr \<Rightarrow> pystr \<Rightarrow> pystr \<times> pystr option" where
  "scan_pattern env pattern [] = (pattern, None)"
| "scan_pattern env pattern (char # rest) =
     (if isupper env char then scan_pattern env (pattern @ [char]) rest
      else (pattern, Some (char # rest)))"

text \<open>Lines 69 to 78: the pattern name and the list of modifiers of segment 1.\<close>

definition pattern_and_modifiers :: "'fn env \<Rightarrow> pystr \<Rightarrow> pystr \<times> pystr list" where
  "pattern_and_modifiers env seg =
     (case scan_pattern env [] seg of
        (pattern, modifiers_str) \<Rightarrow>
          (pattern,
           (case modifiers_str of
              None \<Rightarrow> []
            | Some m \<Rightarrow> if m = [] then [] else py_split 43 m)))"

record 'fn mapped_data =
  map_pattern :: Pattern
  map_dh :: 'fn
  map_cipher :: 'fn
  map_hash :: 'fn
  map_keypair :: 'fn

text \<open>Lines 91 to 95: one registry lookup.\<close>

definition lookup :: "string \<Rightarrow> (pystr \<times> 'v) list \<Rightarrow> pystr \<Rightarrow> error + 'v" where
  "lookup key map_dict k =
     (case map_of map_dict k of
        None \<Rightarrow> Inl (UnknownPrimitive key k (map fst map_dict))
      | Some func \<Rightarrow> Inr func)"

text \<open>
  Lines 80 to 97, on the list \<open>unpacked\<close>: the dictionary \<open>data\<close> reads
  \<^verbatim>\<open>unpacked[2]\<close>, \<^verbatim>\<open>unpacked[3]\<close>, \<^verbatim>\<open>unpacked[4]\<close>; then the registries are
  looked up in the order of \<^verbatim>\<open>methods\<close>: pattern, dh, cipher, hash, keypair.
\<close>

definition map_data ::
  "'fn env \<Rightarrow> pystr list \<Rightarrow> pystr \<Rightarrow> error + 'fn mapped_data" where
  "map_data env unpacked pattern =
     (case index unpacked 2 of Inl e \<Rightarrow> Inl e | Inr dh \<Rightarrow>
     (case index unpacked 3 of Inl e \<Rightarrow> Inl e | Inr cipher \<Rightarrow>
     (case index unpacked 4 of Inl e \<Rightarrow> Inl e | Inr hash \<Rightarrow>
     (case lookup ''pattern'' (patterns_map env) (str ''Pattern'' @ pattern) of
        Inl e \<Rightarrow> Inl e | Inr p \<Rightarrow>
     (case lookup ''dh'' (dh_map env) dh of Inl e \<Rightarrow> Inl e | Inr d \<Rightarrow>
     (case lookup ''cipher'' (cipher_map env) cipher of Inl e \<Rightarrow> Inl e | Inr c \<Rightarrow>
     (case lookup ''hash'' (hash_map env) hash of Inl e \<Rightarrow> Inl e | Inr h \<Rightarrow>
     (case lookup ''keypair'' (keypair_map env) dh of Inl e \<Rightarrow> Inl e | Inr k \<Rightarrow>
        Inr \<lparr>map_pattern = p, map_dh = d, map_cipher = c, map_hash = h,
             map_keypair = k\<rparr>))))))))"

text \<open>
  The method, on \<^verbatim>\<open>self.name\<close>. \<^verbatim>\<open>unpacked[0]\<close> always exists, since
  \<^verbatim>\<open>split\<close> never returns an empty list.
\<close>

definition parse_protocol_name ::
  "'fn env \<Rightarrow> bytes \<Rightarrow> error + ('fn mapped_data \<times> pystr list)" where
  "parse_protocol_name env name =
     (case decode name of
        None \<Rightarrow> Inl UnicodeDecodeError
      | Some text \<Rightarrow>
          let unpacked = py_split 95 text in
          if hd unpacked \<noteq> str ''Noise'' then Inl (BadPrefix name)
          else
            (case index unpacked 1 of
               Inl e \<Rightarrow> Inl e
             | Inr seg \<Rightarrow>
                 (case pattern_and_modifiers env seg of
                    (pattern, modifiers) \<Rightarrow>
                      (case map_data env unpacked pattern of
                         Inl e \<Rightarrow> Inl e
                       | Inr mapped \<Rightarrow> Inr (mapped, modifiers)))))"

subsection \<open>The descriptor\<close>

text \<open>
  An object held in one of the state attributes: an instance of the class
  \<^verbatim>\<open>Empty\<close> of \<^verbatim>\<open>.constants\<close>, which has no attributes, or an object of the
  handshake engine. Of the engine's object the model keeps the attribute this class
  reads: \<^verbatim>\<open>initiator\<close> of the handshake state, \<^verbatim>\<open>h\<close> of the symmetric state.
\<close>

datatype 'a obj = Empty | Populated 'a

text \<open>
  The attributes of a \<^verbatim>\<open>NoiseProtocol\<close> object. \<open>initiator\<close> and
  \<open>handshake_hash\<close> are \<open>None\<close> for Python's \<^verbatim>\<open>None\<close>, and so is \<open>psks\<close>.
  \<open>cipher_state_encrypt\<close> and \<open>cipher_state_decrypt\<close> are the attributes that
  \<^verbatim>\<open>del\<close> removes: \<open>None\<close> there means that the object has no such attribute.
  \<^verbatim>\<open>hmac\<close> and \<^verbatim>\<open>hkdf\<close> are closures over \<open>hash_fn\<close> and hold nothing else.
\<close>

record ('fn, 'cs) NoiseProtocol =
  name :: bytes
  pattern :: Pattern
  pattern_modifiers :: "pystr list"
  psks :: "bytes list option"
  is_psk_handshake :: bool
  dh_fn :: 'fn
  cipher_fn :: 'fn
  hash_fn :: 'fn
  keypair_fn :: 'fn
  initiator :: "bool option"
  one_way :: bool
  handshake_hash :: "bytes option"
  handshake_state :: "bool obj"
  symmetric_state :: "bytes obj"
  cipher_state_handshake :: "'cs obj"
  cipher_state_encrypt :: "'cs obj option"
  cipher_state_decrypt :: "'cs obj option"

subsection \<open>\<^verbatim>\<open>__init__\<close>\<close>

text \<open>The argument \<^verbatim>\<open>protocol_name\<close>: a \<^verbatim>\<open>bytes\<close> object, or an object of
  another type, of which the message prints the type.\<close>

datatype protocol_name_arg = Bytes bytes | NonBytes string

text \<open>\<^verbatim>\<open>not self.psks\<close> is true for \<^verbatim>\<open>None\<close> and for the empty list.\<close>

definition psk_list :: "bytes list option \<Rightarrow> bytes list" where
  "psk_list p = (case p of None \<Rightarrow> [] | Some ps \<Rightarrow> ps)"

text \<open>Lines 39 to 44: the two checks of a PSK handshake, on the pattern after its
  modifiers were applied.\<close>

definition check_psks :: "Pattern \<Rightarrow> bytes list \<Rightarrow> error option" where
  "check_psks pat ps =
     (if list_ex (\<lambda>psk. length psk \<noteq> 32) ps then Some InvalidPskLength
      else if int (length ps) \<noteq> psk_count pat
      then Some (BadPskCount (psk_count pat) (length ps))
      else None)"

text \<open>Lines 31 to 34: the pattern instance, with the modifiers applied when there are
  any.\<close>

definition init_pattern ::
  "'fn env \<Rightarrow> Pattern \<Rightarrow> pystr list \<Rightarrow> error + Pattern" where
  "init_pattern env pat mods =
     (if mods \<noteq> [] then apply_pattern_modifiers env pat mods else Inr pat)"

text \<open>Lines 27 to 61: the attributes of the new object, as the constructor assigns
  them when no check has failed.\<close>

definition init_attributes ::
  "bytes \<Rightarrow> 'fn mapped_data \<Rightarrow> pystr list \<Rightarrow> Pattern \<Rightarrow> bytes list option \<Rightarrow>
   ('fn, 'cs) NoiseProtocol" where
  "init_attributes nm mappings mods pat psks_arg =
     \<lparr>name = nm,
      pattern = pat,
      pattern_modifiers = mods,
      psks = psks_arg,
      is_psk_handshake = (psk_list psks_arg \<noteq> []),
      dh_fn = map_dh mappings,
      cipher_fn = map_cipher mappings,
      hash_fn = map_hash mappings,
      keypair_fn = map_keypair mappings,
      initiator = None,
      one_way = False,
      handshake_hash = None,
      handshake_state = Empty,
      symmetric_state = Empty,
      cipher_state_handshake = Empty,
      cipher_state_encrypt = Some Empty,
      cipher_state_decrypt = Some Empty\<rparr>"

definition NoiseProtocol_init ::
  "'fn env \<Rightarrow> protocol_name_arg \<Rightarrow> bytes list option \<Rightarrow> error + ('fn, 'cs) NoiseProtocol"
where
  "NoiseProtocol_init env protocol_name psks_arg =
     (case protocol_name of
        NonBytes ty \<Rightarrow> Inl (NotBytes ty)
      | Bytes nm \<Rightarrow>
          if length nm > MAX_PROTOCOL_NAME_LEN env
          then Inl (NameTooLong (MAX_PROTOCOL_NAME_LEN env))
          else
            (case parse_protocol_name env nm of
               Inl e \<Rightarrow> Inl e
             | Inr (mappings, mods) \<Rightarrow>
                 (case init_pattern env (map_pattern mappings) mods of
                    Inl e \<Rightarrow> Inl e
                  | Inr pat \<Rightarrow>
                      (case (if psk_list psks_arg \<noteq> []
                             then check_psks pat (psk_list psks_arg) else None) of
                         Some e \<Rightarrow> Inl e
                       | None \<Rightarrow> Inr (init_attributes nm mappings mods pat psks_arg)))))"

subsection \<open>\<^verbatim>\<open>handshake_done\<close>\<close>

text \<open>Reading an attribute that \<^verbatim>\<open>del\<close> may have removed.\<close>

definition get_cipher_state_encrypt :: "('fn, 'cs) NoiseProtocol \<Rightarrow> error + 'cs obj" where
  "get_cipher_state_encrypt self =
     (case cipher_state_encrypt self of
        None \<Rightarrow> Inl (AttributeError ''cipher_state_encrypt'')
      | Some v \<Rightarrow> Inr v)"

definition get_cipher_state_decrypt :: "('fn, 'cs) NoiseProtocol \<Rightarrow> error + 'cs obj" where
  "get_cipher_state_decrypt self =
     (case cipher_state_decrypt self of
        None \<Rightarrow> Inl (AttributeError ''cipher_state_decrypt'')
      | Some v \<Rightarrow> Inr v)"

text \<open>\<^verbatim>\<open>del self.cipher_state_encrypt\<close> and \<^verbatim>\<open>del self.cipher_state_decrypt\<close>:
  an \<^verbatim>\<open>AttributeError\<close> when the attribute is not there.\<close>

definition del_cipher_state_encrypt ::
  "('fn, 'cs) NoiseProtocol \<Rightarrow> error + ('fn, 'cs) NoiseProtocol" where
  "del_cipher_state_encrypt self =
     (case cipher_state_encrypt self of
        None \<Rightarrow> Inl (AttributeError ''cipher_state_encrypt'')
      | Some _ \<Rightarrow> Inr (self\<lparr>cipher_state_encrypt := None\<rparr>))"

definition del_cipher_state_decrypt ::
  "('fn, 'cs) NoiseProtocol \<Rightarrow> error + ('fn, 'cs) NoiseProtocol" where
  "del_cipher_state_decrypt self =
     (case cipher_state_decrypt self of
        None \<Rightarrow> Inl (AttributeError ''cipher_state_decrypt'')
      | Some _ \<Rightarrow> Inr (self\<lparr>cipher_state_decrypt := None\<rparr>))"

text \<open>
  The method changes the object in place, so an exception leaves the changes made
  before it: \<open>Inl (e, self')\<close> is the exception \<open>e\<close> with the object as it then is,
  \<open>Inr self'\<close> the object after a normal return.
\<close>

definition handshake_done ::
  "('fn, 'cs) NoiseProtocol \<Rightarrow>
   (error \<times> ('fn, 'cs) NoiseProtocol) + ('fn, 'cs) NoiseProtocol" where
  "handshake_done self =
     (case handshake_state self of
        Empty \<Rightarrow> Inl (AttributeError ''initiator'', self)
      | Populated i \<Rightarrow>
          let self1 = self\<lparr>initiator := Some i\<rparr> in
          (case (if Pattern.one_way (pattern self1)
                 then (if i then del_cipher_state_decrypt self1
                       else del_cipher_state_encrypt self1)
                 else Inr self1) of
             Inl e \<Rightarrow> Inl (e, self1)
           | Inr self2 \<Rightarrow>
               (case symmetric_state self2 of
                  Empty \<Rightarrow> Inl (AttributeError ''h'', self2)
                | Populated h \<Rightarrow> Inr (self2\<lparr>handshake_hash := Some h\<rparr>))))"

text \<open>The object after a call, whether it returned or raised.\<close>

definition object_after ::
  "(error \<times> ('fn, 'cs) NoiseProtocol) + ('fn, 'cs) NoiseProtocol \<Rightarrow> ('fn, 'cs) NoiseProtocol"
where
  "object_after r = (case r of Inl (e, self') \<Rightarrow> self' | Inr self' \<Rightarrow> self')"

subsection \<open>A registry for the concrete evaluations\<close>

text \<open>
  The registries live in modules that are not part of the file. The concrete
  evaluations below run on this stand-in: three patterns (\<^verbatim>\<open>N\<close> is one-way),
  a length bound of 255, and an \<^verbatim>\<open>apply_pattern_modifiers\<close> that counts the
  \<^verbatim>\<open>psk\<close> modifiers, lets \<^verbatim>\<open>fallback\<close> pass and rejects every other modifier.
\<close>

fun test_apply_modifiers :: "Pattern \<Rightarrow> pystr list \<Rightarrow> error + Pattern" where
  "test_apply_modifiers p [] = Inr p"
| "test_apply_modifiers p (m # ms) =
     (if take 3 m = str ''psk''
      then test_apply_modifiers (p\<lparr>psk_count := psk_count p + 1\<rparr>) ms
      else if m = str ''fallback'' then test_apply_modifiers p ms
      else Inl (ModifierError m))"

definition test_env :: "string env" where
  "test_env =
     \<lparr>MAX_PROTOCOL_NAME_LEN = 255,
      patterns_map =
        [(str ''PatternN'', \<lparr>psk_count = 0, one_way = True\<rparr>),
         (str ''PatternXX'', \<lparr>psk_count = 0, one_way = False\<rparr>),
         (str ''PatternIK'', \<lparr>psk_count = 0, one_way = False\<rparr>)],
      dh_map = [(str ''25519'', ''ED25519'')],
      cipher_map =
        [(str ''AESGCM'', ''AESGCMCipher''), (str ''ChaChaPoly'', ''ChaCha20Cipher'')],
      hash_map = [(str ''SHA256'', ''SHA256Hash''), (str ''BLAKE2s'', ''BLAKE2sHash'')],
      keypair_map = [(str ''25519'', ''KeyPair25519'')],
      apply_pattern_modifiers = test_apply_modifiers,
      unicode_isupper = (\<lambda>c. False)\<rparr>"

text \<open>
  What the handshake engine leaves in a descriptor when the exchange is complete: the
  role in the handshake state, the transcript hash in the symmetric state, and the two
  cipher states of the transport phase.
\<close>

definition test_engine_done ::
  "bool \<Rightarrow> bytes \<Rightarrow> ('fn, string) NoiseProtocol \<Rightarrow> ('fn, string) NoiseProtocol" where
  "test_engine_done i h self =
     self\<lparr>handshake_state := Populated i,
          symmetric_state := Populated h,
          cipher_state_encrypt := Some (Populated ''c1''),
          cipher_state_decrypt := Some (Populated ''c2'')\<rparr>"

text \<open>
  The descriptors that construction returns in this registry for
  \<^verbatim>\<open>Noise_XX_25519_AESGCM_SHA256\<close> (a two-way pattern) and for
  \<^verbatim>\<open>Noise_N_25519_AESGCM_SHA256\<close> (a one-way pattern), without PSKs.
\<close>

definition test_XX :: "(string, string) NoiseProtocol" where
  "test_XX =
     \<lparr>name = ''Noise_XX_25519_AESGCM_SHA256'',
      pattern = \<lparr>psk_count = 0, one_way = False\<rparr>,
      pattern_modifiers = [], psks = None, is_psk_handshake = False,
      dh_fn = ''ED25519'', cipher_fn = ''AESGCMCipher'', hash_fn = ''SHA256Hash'',
      keypair_fn = ''KeyPair25519'',
      initiator = None, one_way = False, handshake_hash = None,
      handshake_state = Empty, symmetric_state = Empty,
      cipher_state_handshake = Empty,
      cipher_state_encrypt = Some Empty, cipher_state_decrypt = Some Empty\<rparr>"

definition test_N :: "(string, string) NoiseProtocol" where
  "test_N =
     \<lparr>name = ''Noise_N_25519_AESGCM_SHA256'',
      pattern = \<lparr>psk_count = 0, one_way = True\<rparr>,
      pattern_modifiers = [], psks = None, is_psk_handshake = False,
      dh_fn = ''ED25519'', cipher_fn = ''AESGCMCipher'', hash_fn = ''SHA256Hash'',
      keypair_fn = ''KeyPair25519'',
      initiator = None, one_way = False, handshake_hash = None,
      handshake_state = Empty, symmetric_state = Empty,
      cipher_state_handshake = Empty,
      cipher_state_encrypt = Some Empty, cipher_state_decrypt = Some Empty\<rparr>"

section \<open>Lemmas about the helper functions\<close>

lemma py_split_not_Nil: "py_split sep xs \<noteq> []"
  by (induction xs) (auto split: list.splits)

lemma py_split_no_sep: "sep \<notin> set a \<Longrightarrow> py_split sep a = [a]"
  by (induction a) auto

lemma py_split_append:
  "sep \<notin> set a \<Longrightarrow> py_split sep (a @ sep # b) = a # py_split sep b"
  by (induction a) auto

lemma py_split_append_general:
  "py_split sep (a @ sep # b) = py_split sep a @ py_split sep b"
  by (induction a) (auto split: list.splits simp: py_split_not_Nil)

lemma scan_pattern_eq:
  "scan_pattern env acc s =
     (acc @ takeWhile (isupper env) s,
      if dropWhile (isupper env) s = [] then None else Some (dropWhile (isupper env) s))"
  by (induction s arbitrary: acc) auto

lemma isupper_not_sep: "isupper env c \<Longrightarrow> c \<noteq> 95 \<and> c \<noteq> 43"
  by (auto simp: isupper_def split: if_splits)

lemma pattern_and_modifiers_eq:
  assumes "list_all (isupper env) P" and "mods = [] \<or> \<not> isupper env (hd mods)"
  shows "pattern_and_modifiers env (P @ mods) =
           (P, if mods = [] then [] else py_split 43 mods)"
proof -
  have tw: "takeWhile (isupper env) (P @ mods) = P"
    using assms by (cases mods) (auto simp: list_all_iff takeWhile_append2 )
  have dw: "dropWhile (isupper env) (P @ mods) = mods"
    using assms by (cases mods) (auto simp: list_all_iff dropWhile_append2)
  show ?thesis
    by (simp add: pattern_and_modifiers_def scan_pattern_eq tw dw)
qed

lemma str_Noise_no_sep: "95 \<notin> set (str ''Noise'')"
  by (simp add: str_def)

text \<open>The parser on a name of five well-formed segments whose keys are registered.\<close>

lemma parse_resolves_names:
  assumes form: "decode nm =
      Some (str ''Noise'' @ 95 # (P @ mods) @ 95 # dh @ 95 # cipher @ 95 # hash)"
    and P: "P \<noteq> []" "list_all (isupper env) P"
    and mods: "mods = [] \<or> \<not> isupper env (hd mods)" "95 \<notin> set mods"
    and toks: "95 \<notin> set dh" "95 \<notin> set cipher" "95 \<notin> set hash"
    and regs: "map_of (patterns_map env) (str ''Pattern'' @ P) = Some pat"
      "map_of (dh_map env) dh = Some d"
      "map_of (cipher_map env) cipher = Some c"
      "map_of (hash_map env) hash = Some h"
      "map_of (keypair_map env) dh = Some k"
  shows "pattern_and_modifiers env (P @ mods) =
           (P, if mods = [] then [] else py_split 43 mods)
       \<and> parse_protocol_name env nm =
           Inr (\<lparr>map_pattern = pat, map_dh = d, map_cipher = c, map_hash = h,
                 map_keypair = k\<rparr>,
                if mods = [] then [] else py_split 43 mods)"
proof -
  have pm: "pattern_and_modifiers env (P @ mods) =
           (P, if mods = [] then [] else py_split 43 mods)"
    using P(2) mods(1) by (rule pattern_and_modifiers_eq)
  have "95 \<notin> set P"
    using P(2) isupper_not_sep [of env] by (auto simp: list_all_iff)
  then have seg: "95 \<notin> set (P @ mods)"
    using mods(2) by simp
  have sp: "py_split 95 (str ''Noise'' @ 95 # (P @ mods) @ 95 # dh @ 95 # cipher @ 95 # hash)
      = [str ''Noise'', P @ mods, dh, cipher, hash]"
    using seg toks str_Noise_no_sep
    by (simp add: py_split_append py_split_no_sep del: append_assoc)
  have "parse_protocol_name env nm =
           Inr (\<lparr>map_pattern = pat, map_dh = d, map_cipher = c, map_hash = h,
                 map_keypair = k\<rparr>,
                if mods = [] then [] else py_split 43 mods)"
    unfolding parse_protocol_name_def form option.case Let_def sp
    by (simp add: index_def pm map_data_def lookup_def regs del: append_assoc)
  with pm show ?thesis by simp
qed

subsection \<open>The stand-in registry\<close>

lemma test_isupper: "isupper test_env c = (65 \<le> c \<and> c \<le> 90)"
  by (auto simp: isupper_def test_env_def)

lemma test_env_fields:
  "MAX_PROTOCOL_NAME_LEN test_env = 255"
  "patterns_map test_env =
        [(str ''PatternN'', \<lparr>psk_count = 0, one_way = True\<rparr>),
         (str ''PatternXX'', \<lparr>psk_count = 0, one_way = False\<rparr>),
         (str ''PatternIK'', \<lparr>psk_count = 0, one_way = False\<rparr>)]"
  "dh_map test_env = [(str ''25519'', ''ED25519'')]"
  "cipher_map test_env =
        [(str ''AESGCM'', ''AESGCMCipher''), (str ''ChaChaPoly'', ''ChaCha20Cipher'')]"
  "hash_map test_env = [(str ''SHA256'', ''SHA256Hash''), (str ''BLAKE2s'', ''BLAKE2sHash'')]"
  "keypair_map test_env = [(str ''25519'', ''KeyPair25519'')]"
  "apply_pattern_modifiers test_env = test_apply_modifiers"
  by (simp_all add: test_env_def)

lemma parse_XX:
  "parse_protocol_name test_env ''Noise_XX_25519_AESGCM_SHA256'' =
     Inr (\<lparr>map_pattern = \<lparr>psk_count = 0, one_way = False\<rparr>, map_dh = ''ED25519'',
            map_cipher = ''AESGCMCipher'', map_hash = ''SHA256Hash'',
            map_keypair = ''KeyPair25519''\<rparr>, [])"
  by (simp add: parse_protocol_name_def decode_def str_def index_def
      pattern_and_modifiers_def map_data_def lookup_def test_env_fields test_isupper)

lemma utf8_decode_ascii: "list_all (\<lambda>b. b < 128) bs \<Longrightarrow> utf8_decode bs = Some bs"
  by (induction bs) auto

lemma long_name_parse:
  "parse_protocol_name test_env
     (''Noise_XX'' @ replicate 250 CHR ''a'' @ ''_25519_AESGCM_SHA256'') =
     Inr (\<lparr>map_pattern = \<lparr>psk_count = 0, one_way = False\<rparr>, map_dh = ''ED25519'',
            map_cipher = ''AESGCMCipher'', map_hash = ''SHA256Hash'',
            map_keypair = ''KeyPair25519''\<rparr>, [replicate 250 97])"
proof -
  have "decode (''Noise_XX'' @ replicate 250 CHR ''a'' @ ''_25519_AESGCM_SHA256'')
     = Some (map of_char (''Noise_XX'' @ replicate 250 CHR ''a'' @ ''_25519_AESGCM_SHA256''))"
    unfolding decode_def by (rule utf8_decode_ascii) (simp add: list_all_iff)
  then have d: "decode (''Noise_XX'' @ replicate 250 CHR ''a'' @ ''_25519_AESGCM_SHA256'')
     = Some (str ''Noise'' @ 95 # (str ''XX'' @ replicate 250 97) @ 95 # str ''25519''
          @ 95 # str ''AESGCM'' @ 95 # str ''SHA256'')"
    by (simp add: str_def)
  have "py_split 43 (replicate 250 (97::nat)) = [replicate 250 97]"
    by (rule py_split_no_sep) simp
  then show ?thesis
    using parse_resolves_names [OF d, of test_env
        "\<lparr>psk_count = 0, one_way = False\<rparr>" "''ED25519''" "''AESGCMCipher''"
        "''SHA256Hash''" "''KeyPair25519''"]
    by (simp add: str_def test_env_fields test_isupper)
qed

lemma parse_IKpsk2:
  "parse_protocol_name test_env ''Noise_IKpsk2_25519_ChaChaPoly_BLAKE2s'' =
     Inr (\<lparr>map_pattern = \<lparr>psk_count = 0, one_way = False\<rparr>, map_dh = ''ED25519'',
            map_cipher = ''ChaCha20Cipher'', map_hash = ''BLAKE2sHash'',
            map_keypair = ''KeyPair25519''\<rparr>, [str ''psk2''])"
  by (simp add: parse_protocol_name_def decode_def str_def index_def
      pattern_and_modifiers_def map_data_def lookup_def test_env_fields test_isupper)

lemma init_pattern_IKpsk2:
  "init_pattern test_env \<lparr>psk_count = 0, one_way = False\<rparr> [str ''psk2'']
     = Inr \<lparr>psk_count = 1, one_way = False\<rparr>"
  by (simp add: init_pattern_def test_env_fields str_def)

lemmas eval_defs = NoiseProtocol_init_def parse_protocol_name_def decode_def str_def index_def
      pattern_and_modifiers_def map_data_def lookup_def test_env_fields test_isupper
      init_pattern_def psk_list_def check_psks_def init_attributes_def

lemma init_XX:
  "NoiseProtocol_init test_env (Bytes ''Noise_XX_25519_AESGCM_SHA256'') None = Inr test_XX"
  by (simp add: eval_defs test_XX_def)

lemma init_N:
  "NoiseProtocol_init test_env (Bytes ''Noise_N_25519_AESGCM_SHA256'') None = Inr test_N"
  by (simp add: eval_defs test_N_def)

subsection \<open>Segments\<close>

text \<open>With fewer than five segments one of the reads \<^verbatim>\<open>unpacked[1]\<close> to
  \<^verbatim>\<open>unpacked[4]\<close> is out of range.\<close>

lemma too_few_segments_parse:
  assumes "decode nm = Some text"
    and "hd (py_split 95 text) = str ''Noise''"
    and "length (py_split 95 text) < 5"
  shows "parse_protocol_name env nm = Inl IndexError"
  using assms
  by (auto simp add: parse_protocol_name_def Let_def map_data_def index_def
      split: prod.splits sum.splits)

text \<open>Decoding is compositional, and the parser reads the first five segments only.\<close>

lemma utf8_decode_append:
  "utf8_decode a = Some x \<Longrightarrow> utf8_decode (a @ b) = map_option ((@) x) (utf8_decode b)"
proof (induction a arbitrary: x rule: utf8_decode.induct)
  case 1
  then show ?case by (simp add: option.map_ident map_option.identity)
next
  case (2 b0 bs)
  then show ?case
    by (auto simp add: option.map_comp comp_def split: if_splits list.splits
        cong: option.map_cong)
qed


lemma decode_append:
  assumes "decode a = Some x" and "decode b = Some y"
  shows "decode (a @ CHR ''_'' # b) = Some (x @ 95 # y)"
proof -
  have "utf8_decode (map of_char (CHR ''_'' # b)) = Some (95 # y)"
    using assms(2) by (simp add: decode_def)
  then show ?thesis
    using assms(1) by (simp add: decode_def utf8_decode_append)
qed

lemma index_append: "i < length xs \<Longrightarrow> index (xs @ ys) i = index xs i"
  by (simp add: index_def nth_append)

lemma map_data_Inr_length:
  "map_data env unpacked p = Inr m \<Longrightarrow> 5 \<le> length unpacked"
  by (auto simp add: map_data_def index_def split: if_splits)

lemma map_data_append:
  "5 \<le> length unpacked \<Longrightarrow>
   map_data env (unpacked @ rest) p = map_data env unpacked p"
proof -
  assume "5 \<le> length unpacked"
  then have "index (unpacked @ rest) 2 = index unpacked 2"
    "index (unpacked @ rest) 3 = index unpacked 3"
    "index (unpacked @ rest) 4 = index unpacked 4"
    by (simp_all add: index_append)
  then show ?thesis
    by (simp only: map_data_def)
qed

lemma parse_ignores_extra_segments:
  assumes "parse_protocol_name env short = Inr r" and "decode extra = Some e"
  shows "parse_protocol_name env (short @ CHR ''_'' # extra) = Inr r"
proof -
  from assms(1) obtain tx where d: "decode short = Some tx"
    by (auto simp add: parse_protocol_name_def split: option.splits)
  let ?u = "py_split 95 tx"
  from assms(1) d have h: "hd ?u = str ''Noise''"
    by (auto simp add: parse_protocol_name_def Let_def split: if_splits)
  from assms(1) d h obtain seg where s: "index ?u 1 = Inr seg"
    by (auto simp add: parse_protocol_name_def Let_def split: sum.splits)
  from assms(1) d h s obtain mapped where
    m: "map_data env ?u (fst (pattern_and_modifiers env seg)) = Inr mapped"
    and r: "r = (mapped, snd (pattern_and_modifiers env seg))"
    by (auto simp add: parse_protocol_name_def Let_def split: sum.splits prod.splits)
  have len: "5 \<le> length ?u"
    using m by (rule map_data_Inr_length)
  have dl: "decode (short @ CHR ''_'' # extra) = Some (tx @ 95 # e)"
    using d assms(2) by (rule decode_append)
  have sp: "py_split 95 (tx @ 95 # e) = ?u @ py_split 95 e"
    by (rule py_split_append_general)
  have h': "hd (?u @ py_split 95 e) = str ''Noise''"
    using h py_split_not_Nil [of 95 tx] by simp
  have s': "index (?u @ py_split 95 e) 1 = Inr seg"
    using s len by (simp add: index_append)
  have m': "map_data env (?u @ py_split 95 e) (fst (pattern_and_modifiers env seg)) = Inr mapped"
    using m len by (simp add: map_data_append)
  show ?thesis
    unfolding parse_protocol_name_def dl option.case Let_def sp
    using h' s' m' r by (simp add: split_beta)
qed

lemma parse_XX_fallback:
  "parse_protocol_name test_env ''Noise_XX+fallback_25519_ChaChaPoly_BLAKE2s'' =
     Inr (\<lparr>map_pattern = \<lparr>psk_count = 0, one_way = False\<rparr>, map_dh = ''ED25519'',
            map_cipher = ''ChaCha20Cipher'', map_hash = ''BLAKE2sHash'',
            map_keypair = ''KeyPair25519''\<rparr>, [ [], str ''fallback'' ])"
  by (simp add: parse_protocol_name_def decode_def str_def index_def
      pattern_and_modifiers_def map_data_def lookup_def test_env_fields test_isupper)

subsection \<open>The constructor after name resolution\<close>

text \<open>The constructor once the name is resolved and the modifiers are applied.\<close>

lemma init_after_resolution:
  assumes "length nm \<le> MAX_PROTOCOL_NAME_LEN env"
    and "parse_protocol_name env nm = Inr (mappings, mods)"
    and "init_pattern env (map_pattern mappings) mods = Inr pat"
  shows "NoiseProtocol_init env (Bytes nm) psks_arg =
     (if psk_list psks_arg = [] then Inr (init_attributes nm mappings mods pat psks_arg)
      else if list_ex (\<lambda>psk. length psk \<noteq> 32) (psk_list psks_arg)
      then Inl InvalidPskLength
      else if int (length (psk_list psks_arg)) \<noteq> psk_count pat
      then Inl (BadPskCount (psk_count pat) (length (psk_list psks_arg)))
      else Inr (init_attributes nm mappings mods pat psks_arg))"
  using assms by (simp add: NoiseProtocol_init_def check_psks_def)

lemma list_ex_not_32:
  "list_ex (\<lambda>psk. length psk \<noteq> 32) ps = (\<not> list_all (\<lambda>psk. length psk = 32) ps)"
  by (induction ps) auto

lemma init_IKpsk2:
  "NoiseProtocol_init test_env (Bytes ''Noise_IKpsk2_25519_ChaChaPoly_BLAKE2s'') psks_arg =
     (if psk_list psks_arg = []
      then Inr (init_attributes ''Noise_IKpsk2_25519_ChaChaPoly_BLAKE2s''
             \<lparr>map_pattern = \<lparr>psk_count = 0, one_way = False\<rparr>, map_dh = ''ED25519'',
              map_cipher = ''ChaCha20Cipher'', map_hash = ''BLAKE2sHash'',
              map_keypair = ''KeyPair25519''\<rparr> [str ''psk2'']
             \<lparr>psk_count = 1, one_way = False\<rparr> psks_arg)
      else if list_ex (\<lambda>psk. length psk \<noteq> 32) (psk_list psks_arg)
      then Inl InvalidPskLength
      else if int (length (psk_list psks_arg)) \<noteq> 1
      then Inl (BadPskCount 1 (length (psk_list psks_arg)))
      else Inr (init_attributes ''Noise_IKpsk2_25519_ChaChaPoly_BLAKE2s''
             \<lparr>map_pattern = \<lparr>psk_count = 0, one_way = False\<rparr>, map_dh = ''ED25519'',
              map_cipher = ''ChaCha20Cipher'', map_hash = ''BLAKE2sHash'',
              map_keypair = ''KeyPair25519''\<rparr> [str ''psk2'']
             \<lparr>psk_count = 1, one_way = False\<rparr> psks_arg))"
proof -
  have len: "length ''Noise_IKpsk2_25519_ChaChaPoly_BLAKE2s'' \<le> MAX_PROTOCOL_NAME_LEN test_env"
    by (simp add: test_env_fields)
  have pat: "init_pattern test_env
      (map_pattern \<lparr>map_pattern = \<lparr>psk_count = 0, one_way = False\<rparr>, map_dh = ''ED25519'',
            map_cipher = ''ChaCha20Cipher'', map_hash = ''BLAKE2sHash'',
            map_keypair = ''KeyPair25519''\<rparr>) [str ''psk2'']
     = Inr \<lparr>psk_count = 1, one_way = False\<rparr>"
    by (simp add: init_pattern_IKpsk2)
  show ?thesis
    using init_after_resolution [OF len parse_IKpsk2 pat, of psks_arg]
    by (auto split: if_splits)
qed

subsection \<open>The finalizer\<close>

lemmas done_defs = handshake_done_def del_cipher_state_decrypt_def del_cipher_state_encrypt_def
  get_cipher_state_decrypt_def get_cipher_state_encrypt_def object_after_def

text \<open>A later call of \<^verbatim>\<open>handshake_done\<close> finds the symmetric state as it was, and so
  assigns the same hash again, if it gets that far.\<close>

lemma hash_kept:
  assumes "handshake_hash self = Some h" and "symmetric_state self = Populated h"
  shows "handshake_hash (object_after (handshake_done self)) = Some h
       \<and> symmetric_state (object_after (handshake_done self)) = Populated h"
  using assms
  by (auto simp add: done_defs Let_def split: obj.splits option.splits)

lemma hash_kept_iterated:
  assumes "handshake_hash self = Some h" and "symmetric_state self = Populated h"
  shows "handshake_hash (((\<lambda>s. object_after (handshake_done s)) ^^ n) self) = Some h
       \<and> symmetric_state (((\<lambda>s. object_after (handshake_done s)) ^^ n) self) = Populated h"
  using assms by (induction n) (simp_all add: hash_kept)

lemma handshake_done_completed:
  assumes "handshake_state self = Populated i"
    and "symmetric_state self = Populated h"
    and "cipher_state_encrypt self \<noteq> None"
    and "cipher_state_decrypt self \<noteq> None"
  shows "handshake_done self =
     Inr ((if Pattern.one_way (pattern self)
           then (if i then self\<lparr>initiator := Some i, cipher_state_decrypt := None\<rparr>
                 else self\<lparr>initiator := Some i, cipher_state_encrypt := None\<rparr>)
           else self\<lparr>initiator := Some i\<rparr>)\<lparr>handshake_hash := Some h\<rparr>)"
  using assms by (auto simp add: done_defs)

lemma handshake_done_frame:
  "one_way (object_after (handshake_done self)) = one_way self
   \<and> pattern (object_after (handshake_done self)) = pattern self"
  by (auto simp add: done_defs Let_def split: obj.splits option.splits)

section \<open>Name resolution and construction\<close>

text \<open>
  Claim C1, as stated: for every identifier of the form
  \<^verbatim>\<open>Noise_<P><mods>_<dh>_<cipher>_<hash>\<close> whose keys are registered, construction
  succeeds. It fails on the code: the identifier below has that form and the parser
  resolves it, but it is 278 bytes long and \<^verbatim>\<open>__init__\<close> refuses it before
  parsing; and the modifier \<^verbatim>\<open>abc\<close> of the second identifier is handed to the
  pattern, which refuses it.
\<close>

theorem wellformed_name_may_fail:
  "parse_protocol_name test_env
     (''Noise_XX'' @ replicate 250 CHR ''a'' @ ''_25519_AESGCM_SHA256'') =
     Inr (\<lparr>map_pattern = \<lparr>psk_count = 0, one_way = False\<rparr>, map_dh = ''ED25519'',
            map_cipher = ''AESGCMCipher'', map_hash = ''SHA256Hash'',
            map_keypair = ''KeyPair25519''\<rparr>, [replicate 250 97])
   \<and> (NoiseProtocol_init test_env
        (Bytes (''Noise_XX'' @ replicate 250 CHR ''a'' @ ''_25519_AESGCM_SHA256'')) None
        :: error + (string, string) NoiseProtocol) = Inl (NameTooLong 255)
   \<and> (NoiseProtocol_init test_env (Bytes ''Noise_XXabc_25519_AESGCM_SHA256'') None
        :: error + (string, string) NoiseProtocol) = Inl (ModifierError (str ''abc''))"
proof -
  have "(NoiseProtocol_init test_env
        (Bytes (''Noise_XX'' @ replicate 250 CHR ''a'' @ ''_25519_AESGCM_SHA256'')) None
        :: error + (string, string) NoiseProtocol) = Inl (NameTooLong 255)"
    by (simp add: NoiseProtocol_init_def test_env_fields)
  moreover have "(NoiseProtocol_init test_env (Bytes ''Noise_XXabc_25519_AESGCM_SHA256'') None
        :: error + (string, string) NoiseProtocol) = Inl (ModifierError (str ''abc''))"
    by (simp add: NoiseProtocol_init_def parse_protocol_name_def decode_def str_def index_def
      pattern_and_modifiers_def map_data_def lookup_def test_env_fields test_isupper
      init_pattern_def init_attributes_def)
  ultimately show ?thesis using long_name_parse by simp
qed

text \<open>
  Claim C1, amended: let the identifier decode to
  \<^verbatim>\<open>Noise_<P><mods>_<dh>_<cipher>_<hash>\<close>, with \<open>P\<close> a non-empty run of uppercase
  letters, \<open>mods\<close> empty or starting with a character that is not uppercase, no
  underscore inside \<open>mods\<close>, \<open>dh\<close>, \<open>cipher\<close> and \<open>hash\<close>, and the keys
  \<^verbatim>\<open>Pattern<P>\<close>, \<open>dh\<close>, \<open>cipher\<close>, \<open>hash\<close> registered (\<open>dh\<close> in the key-pair
  registry too). Then the pattern name is \<open>P\<close>, the modifier list is \<open>mods\<close> split on
  \<^verbatim>\<open>+\<close> (empty when \<open>mods\<close> is empty), and the parser returns the five registry
  entries with that list. If moreover the identifier is at most
  \<^verbatim>\<open>MAX_PROTOCOL_NAME_LEN\<close> bytes long, the pattern accepts the modifiers, and the
  PSK list is absent, empty or passes its checks, then construction succeeds with
  exactly these entries in the descriptor.
\<close>

theorem init_resolves_wellformed_name:
  assumes form: "decode nm =
      Some (str ''Noise'' @ 95 # (P @ mods) @ 95 # dh @ 95 # cipher @ 95 # hash)"
    and P: "P \<noteq> []" "list_all (isupper env) P"
    and mods: "mods = [] \<or> \<not> isupper env (hd mods)" "95 \<notin> set mods"
    and toks: "95 \<notin> set dh" "95 \<notin> set cipher" "95 \<notin> set hash"
    and regs: "map_of (patterns_map env) (str ''Pattern'' @ P) = Some pat"
      "map_of (dh_map env) dh = Some d"
      "map_of (cipher_map env) cipher = Some c"
      "map_of (hash_map env) hash = Some h"
      "map_of (keypair_map env) dh = Some k"
    and len: "length nm \<le> MAX_PROTOCOL_NAME_LEN env"
    and accepted: "init_pattern env pat (if mods = [] then [] else py_split 43 mods) = Inr pat'"
    and psks_ok: "psk_list psks_arg = [] \<or> check_psks pat' (psk_list psks_arg) = None"
  shows "pattern_and_modifiers env (P @ mods) =
           (P, if mods = [] then [] else py_split 43 mods)
       \<and> parse_protocol_name env nm =
           Inr (\<lparr>map_pattern = pat, map_dh = d, map_cipher = c, map_hash = h,
                 map_keypair = k\<rparr>,
                if mods = [] then [] else py_split 43 mods)
       \<and> NoiseProtocol_init env (Bytes nm) psks_arg =
           Inr \<lparr>name = nm, pattern = pat',
                pattern_modifiers = (if mods = [] then [] else py_split 43 mods),
                psks = psks_arg, is_psk_handshake = (psk_list psks_arg \<noteq> []),
                dh_fn = d, cipher_fn = c, hash_fn = h, keypair_fn = k,
                initiator = None, one_way = False, handshake_hash = None,
                handshake_state = Empty, symmetric_state = Empty,
                cipher_state_handshake = Empty,
                cipher_state_encrypt = Some Empty,
                cipher_state_decrypt = Some Empty\<rparr>"
proof -
  note parsed = parse_resolves_names [OF form P mods toks regs]
  have "NoiseProtocol_init env (Bytes nm) psks_arg =
           Inr \<lparr>name = nm, pattern = pat',
                pattern_modifiers = (if mods = [] then [] else py_split 43 mods),
                psks = psks_arg, is_psk_handshake = (psk_list psks_arg \<noteq> []),
                dh_fn = d, cipher_fn = c, hash_fn = h, keypair_fn = k,
                initiator = None, one_way = False, handshake_hash = None,
                handshake_state = Empty, symmetric_state = Empty,
                cipher_state_handshake = Empty,
                cipher_state_encrypt = Some Empty,
                cipher_state_decrypt = Some Empty\<rparr>"
    using len accepted psks_ok
    by (auto simp add: NoiseProtocol_init_def init_attributes_def parsed)
  with parsed show ?thesis by simp
qed

text \<open>
  Witness for C1: \<^verbatim>\<open>Noise_IKpsk2_25519_ChaChaPoly_BLAKE2s\<close> gives the pattern name
  \<^verbatim>\<open>IK\<close> and the modifiers \<^verbatim>\<open>["psk2"]\<close>; \<^verbatim>\<open>Noise_XX_25519_AESGCM_SHA256\<close> gives
  no modifiers.
\<close>

theorem init_resolves_wellformed_name_witness:
  "parse_protocol_name test_env ''Noise_IKpsk2_25519_ChaChaPoly_BLAKE2s'' =
     Inr (\<lparr>map_pattern = \<lparr>psk_count = 0, one_way = False\<rparr>, map_dh = ''ED25519'',
            map_cipher = ''ChaCha20Cipher'', map_hash = ''BLAKE2sHash'',
            map_keypair = ''KeyPair25519''\<rparr>, [str ''psk2''])
   \<and> pattern_and_modifiers test_env (str ''IKpsk2'') = (str ''IK'', [str ''psk2''])
   \<and> NoiseProtocol_init test_env (Bytes ''Noise_IKpsk2_25519_ChaChaPoly_BLAKE2s'') None =
       Inr \<lparr>name = ''Noise_IKpsk2_25519_ChaChaPoly_BLAKE2s'',
            pattern = \<lparr>psk_count = 1, one_way = False\<rparr>,
            pattern_modifiers = [str ''psk2''],
            psks = None, is_psk_handshake = False,
            dh_fn = ''ED25519'', cipher_fn = ''ChaCha20Cipher'', hash_fn = ''BLAKE2sHash'',
            keypair_fn = ''KeyPair25519'',
            initiator = None, one_way = False, handshake_hash = None,
            handshake_state = Empty, symmetric_state = Empty,
            cipher_state_handshake = Empty,
            cipher_state_encrypt = Some (Empty :: string obj),
            cipher_state_decrypt = Some Empty\<rparr>
   \<and> parse_protocol_name test_env ''Noise_XX_25519_AESGCM_SHA256'' =
     Inr (\<lparr>map_pattern = \<lparr>psk_count = 0, one_way = False\<rparr>, map_dh = ''ED25519'',
            map_cipher = ''AESGCMCipher'', map_hash = ''SHA256Hash'',
            map_keypair = ''KeyPair25519''\<rparr>, [])"
proof -
  have d1: "decode ''Noise_IKpsk2_25519_ChaChaPoly_BLAKE2s'' =
      Some (str ''Noise'' @ 95 # (str ''IK'' @ str ''psk2'') @ 95 # str ''25519'' @ 95 #
            str ''ChaChaPoly'' @ 95 # str ''BLAKE2s'')"
    by (simp add: decode_def str_def)
  have d2: "decode ''Noise_XX_25519_AESGCM_SHA256'' =
      Some (str ''Noise'' @ 95 # (str ''XX'' @ []) @ 95 # str ''25519'' @ 95 #
            str ''AESGCM'' @ 95 # str ''SHA256'')"
    by (simp add: decode_def str_def)
  have s: "py_split 43 (str ''psk2'') = [str ''psk2'']"
    by (simp add: str_def)
  have a: "init_pattern test_env \<lparr>psk_count = 0, one_way = False\<rparr>
             (if str ''psk2'' = [] then [] else py_split 43 (str ''psk2''))
           = Inr \<lparr>psk_count = 1, one_way = False\<rparr>"
    by (simp add: s init_pattern_def test_env_fields) (simp add: str_def)
  have a2: "init_pattern test_env \<lparr>psk_count = 0, one_way = False\<rparr>
             (if ([]::pystr) = [] then [] else py_split 43 [])
           = Inr \<lparr>psk_count = 0, one_way = False\<rparr>"
    by (simp add: init_pattern_def)
  show ?thesis
    using init_resolves_wellformed_name [OF d1, of test_env
        "\<lparr>psk_count = 0, one_way = False\<rparr>" "''ED25519''" "''ChaCha20Cipher''"
        "''BLAKE2sHash''" "''KeyPair25519''" "\<lparr>psk_count = 1, one_way = False\<rparr>" None,
        where ?'b = string]
      init_resolves_wellformed_name [OF d2, of test_env
        "\<lparr>psk_count = 0, one_way = False\<rparr>" "''ED25519''" "''AESGCMCipher''"
        "''SHA256Hash''" "''KeyPair25519''" "\<lparr>psk_count = 0, one_way = False\<rparr>" None,
        where ?'b = string]
      a a2 s
    by (simp add: str_def test_env_fields test_isupper psk_list_def)
qed

text \<open>
  Claim C5 says that an identifier which passes the type, length and prefix checks but
  has fewer than five segments fails with an error of the class of the other parse and
  lookup failures (\<^verbatim>\<open>ValueError\<close>), never with a raw index error. The code does not
  do so: for every such identifier the constructor raises the \<^verbatim>\<open>IndexError\<close> of
  the list read, which is not a \<^verbatim>\<open>ValueError\<close>.
\<close>

theorem too_few_segments_raise_IndexError:
  assumes "length nm \<le> MAX_PROTOCOL_NAME_LEN env"
    and "decode nm = Some text"
    and "hd (py_split 95 text) = str ''Noise''"
    and "length (py_split 95 text) < 5"
  shows "NoiseProtocol_init env (Bytes nm) psks_arg = Inl IndexError
       \<and> class_of IndexError = IndexErrorClass
       \<and> class_of IndexError \<noteq> ValueError"
  using assms(1) too_few_segments_parse [OF assms(2-4), of env]
  by (simp add: NoiseProtocol_init_def)

text \<open>Witness for C5: \<^verbatim>\<open>Noise_XX_25519_AESGCM\<close>, which has four segments.\<close>

theorem too_few_segments_raise_IndexError_witness:
  "(NoiseProtocol_init test_env (Bytes ''Noise_XX_25519_AESGCM'') None
      :: error + (string, string) NoiseProtocol) = Inl IndexError
   \<and> class_of IndexError = IndexErrorClass
   \<and> class_of IndexError \<noteq> ValueError"
proof -
  have d: "decode ''Noise_XX_25519_AESGCM'' = Some (str ''Noise_XX_25519_AESGCM'')"
    by (simp add: decode_def str_def)
  have s: "py_split 95 (str ''Noise_XX_25519_AESGCM'')
      = [str ''Noise'', str ''XX'', str ''25519'', str ''AESGCM'']"
    by (simp add: str_def)
  show ?thesis
    using too_few_segments_raise_IndexError [OF _ d, of test_env None, where ?'b = string]
    by (simp add: s test_env_fields)
qed

text \<open>
  Claim C9, as stated: an identifier with more than five segments whose first five are
  well-formed and name known primitives is constructed, the further segments being
  ignored. It fails on the code when the further segments make the identifier longer
  than \<^verbatim>\<open>MAX_PROTOCOL_NAME_LEN\<close>: the first five segments below are constructed, and
  with a sixth segment of 250 bytes the constructor refuses the name.
\<close>

theorem extra_segments_fail_when_too_long:
  "NoiseProtocol_init test_env (Bytes ''Noise_XX_25519_AESGCM_SHA256'') None = Inr test_XX
   \<and> (NoiseProtocol_init test_env
        (Bytes (''Noise_XX_25519_AESGCM_SHA256'' @ CHR ''_'' # replicate 250 CHR ''x'')) None
        :: error + (string, string) NoiseProtocol) = Inl (NameTooLong 255)"
  using init_XX by (simp add: NoiseProtocol_init_def test_env_fields)

text \<open>
  Claim C9, amended: let \<open>short\<close> be an identifier that is constructed (with the PSK
  argument at hand), and let further segments follow it after an underscore. If the
  whole identifier decodes and is at most \<^verbatim>\<open>MAX_PROTOCOL_NAME_LEN\<close> bytes long, it is
  constructed too, and its descriptor is that of \<open>short\<close> in every attribute but
  \<open>name\<close>, which holds the whole identifier as given.
\<close>

theorem extra_segments_ignored:
  assumes "NoiseProtocol_init env (Bytes short) psks_arg = Inr self"
    and "decode extra = Some e"
    and "length (short @ CHR ''_'' # extra) \<le> MAX_PROTOCOL_NAME_LEN env"
  shows "NoiseProtocol_init env (Bytes (short @ CHR ''_'' # extra)) psks_arg =
           Inr (self\<lparr>name := short @ CHR ''_'' # extra\<rparr>)"
proof -
  from assms(1) obtain r where p: "parse_protocol_name env short = Inr r"
    by (auto simp add: NoiseProtocol_init_def split: if_splits sum.splits)
  have p': "parse_protocol_name env (short @ CHR ''_'' # extra) = Inr r"
    using p assms(2) by (rule parse_ignores_extra_segments)
  show ?thesis
    using assms(1,3) p p'
    by (auto simp add: NoiseProtocol_init_def init_attributes_def
        split: if_splits sum.splits prod.splits option.splits)
qed

text \<open>Witness for C9: two more segments after \<^verbatim>\<open>Noise_XX_25519_AESGCM_SHA256\<close>.\<close>

theorem extra_segments_ignored_witness:
  "NoiseProtocol_init test_env (Bytes ''Noise_XX_25519_AESGCM_SHA256_more_segments'') None =
     Inr (test_XX\<lparr>name := ''Noise_XX_25519_AESGCM_SHA256_more_segments''\<rparr>)"
proof -
  have d: "decode ''more_segments'' = Some (str ''more_segments'')"
    by (simp add: decode_def str_def)
  show ?thesis
    using extra_segments_ignored [OF init_XX d] by (simp add: test_env_fields)
qed

text \<open>
  Claim C10: when the second segment of the identifier is a run of uppercase
  characters followed at once by \<^verbatim>\<open>+\<close> and the parser returns, the modifier list it
  returns starts with the empty string, and the modifiers between the \<^verbatim>\<open>+\<close> signs
  follow: the suffix that is split still has its leading \<^verbatim>\<open>+\<close>.
\<close>

theorem plus_after_pattern_gives_empty_modifier:
  assumes "list_all (isupper env) P"
    and "decode nm = Some text"
    and "index (py_split 95 text) 1 = Inr (P @ 43 # rest)"
    and "parse_protocol_name env nm = Inr (mapped, mods)"
  shows "mods = [] # py_split 43 rest
       \<and> pattern_and_modifiers env (P @ 43 # rest) = (P, [] # py_split 43 rest)"
proof -
  have "\<not> isupper env 43"
    by (simp add: isupper_def)
  then have pm: "pattern_and_modifiers env (P @ 43 # rest) = (P, [] # py_split 43 rest)"
    using pattern_and_modifiers_eq [OF assms(1), of "43 # rest"] by simp
  have "mods = [] # py_split 43 rest"
    using assms(2-4) pm
    by (auto simp add: parse_protocol_name_def Let_def split: if_splits sum.splits)
  with pm show ?thesis by simp
qed

text \<open>Witness for C10: \<^verbatim>\<open>Noise_XX+fallback_25519_ChaChaPoly_BLAKE2s\<close> gives the modifiers
  \<^verbatim>\<open>['', 'fallback']\<close>.\<close>

theorem plus_after_pattern_gives_empty_modifier_witness:
  "[ [], str ''fallback'' ] = [] # py_split 43 (str ''fallback'')
   \<and> pattern_and_modifiers test_env (str ''XX'' @ 43 # str ''fallback'') =
       (str ''XX'', [] # py_split 43 (str ''fallback''))
   \<and> parse_protocol_name test_env ''Noise_XX+fallback_25519_ChaChaPoly_BLAKE2s'' =
     Inr (\<lparr>map_pattern = \<lparr>psk_count = 0, one_way = False\<rparr>, map_dh = ''ED25519'',
            map_cipher = ''ChaCha20Cipher'', map_hash = ''BLAKE2sHash'',
            map_keypair = ''KeyPair25519''\<rparr>, [ [], str ''fallback'' ])"
proof -
  have d: "decode ''Noise_XX+fallback_25519_ChaChaPoly_BLAKE2s'' =
      Some (str ''Noise_XX+fallback_25519_ChaChaPoly_BLAKE2s'')"
    by (simp add: decode_def str_def)
  have i: "index (py_split 95 (str ''Noise_XX+fallback_25519_ChaChaPoly_BLAKE2s'')) 1 =
      Inr (str ''XX'' @ 43 # str ''fallback'')"
    by (simp add: str_def index_def)
  have u: "list_all (isupper test_env) (str ''XX'')"
    by (simp add: test_isupper str_def)
  show ?thesis
    using plus_after_pattern_gives_empty_modifier [OF u d i parse_XX_fallback] parse_XX_fallback
    by simp
qed

section \<open>PSK validation\<close>

text \<open>
  Claim C3, as stated: a PSK that is not 32 bytes long makes construction fail with a
  length error that identifies the length of the violating entry. It fails on the code:
  the exception is the fixed \<^verbatim>\<open>ValueError('Invalid psk length!')\<close>, the same for an
  entry of 31 bytes and for one of 33.
\<close>

theorem psk_length_error_is_fixed:
  "(NoiseProtocol_init test_env (Bytes ''Noise_IKpsk2_25519_ChaChaPoly_BLAKE2s'')
      (Some [replicate 31 CHR ''k'']) :: error + (string, string) NoiseProtocol)
     = Inl InvalidPskLength
   \<and> (NoiseProtocol_init test_env (Bytes ''Noise_IKpsk2_25519_ChaChaPoly_BLAKE2s'')
      (Some [replicate 33 CHR ''k'']) :: error + (string, string) NoiseProtocol)
     = Inl InvalidPskLength"
  by (simp add: init_IKpsk2 psk_list_def)

text \<open>
  Claim C3, amended: once the name is resolved and the modifiers are applied,
  construction depends on the PSK argument as follows. With no list or an empty one
  nothing is checked, the object is returned, \<open>is_psk_handshake\<close> is false and
  \<open>psks\<close> is the argument as given. With a non-empty list: if some PSK is not
  exactly 32 bytes long, the fixed length error (whatever the other PSKs are);
  otherwise, if the number of PSKs differs from the pattern's \<open>psk_count\<close>, the count
  error carrying the required and the given count; otherwise the object, with
  \<open>is_psk_handshake\<close> true. So \<open>is_psk_handshake\<close> is true exactly for a non-empty
  list. Both errors are \<^verbatim>\<open>ValueError\<close>s.
\<close>

theorem psk_validation:
  assumes "length nm \<le> MAX_PROTOCOL_NAME_LEN env"
    and "parse_protocol_name env nm = Inr (mappings, mods)"
    and "init_pattern env (map_pattern mappings) mods = Inr pat"
  shows "(NoiseProtocol_init env (Bytes nm) psks_arg :: error + ('a, 'b) NoiseProtocol) =
     (if psk_list psks_arg = [] then Inr (init_attributes nm mappings mods pat psks_arg)
      else if list_ex (\<lambda>psk. length psk \<noteq> 32) (psk_list psks_arg)
      then Inl InvalidPskLength
      else if int (length (psk_list psks_arg)) \<noteq> psk_count pat
      then Inl (BadPskCount (psk_count pat) (length (psk_list psks_arg)))
      else Inr (init_attributes nm mappings mods pat psks_arg))
   \<and> is_psk_handshake (init_attributes nm mappings mods pat psks_arg :: ('a, 'b) NoiseProtocol)
       = (psk_list psks_arg \<noteq> [])
   \<and> psks (init_attributes nm mappings mods pat psks_arg :: ('a, 'b) NoiseProtocol) = psks_arg
   \<and> class_of InvalidPskLength = ValueError
   \<and> class_of (BadPskCount (psk_count pat) (length (psk_list psks_arg))) = ValueError"
proof -
  have "(NoiseProtocol_init env (Bytes nm) psks_arg :: error + ('a, 'b) NoiseProtocol) =
     (if psk_list psks_arg = [] then Inr (init_attributes nm mappings mods pat psks_arg)
      else if list_ex (\<lambda>psk. length psk \<noteq> 32) (psk_list psks_arg)
      then Inl InvalidPskLength
      else if int (length (psk_list psks_arg)) \<noteq> psk_count pat
      then Inl (BadPskCount (psk_count pat) (length (psk_list psks_arg)))
      else Inr (init_attributes nm mappings mods pat psks_arg))"
    by (rule init_after_resolution [OF assms])
  then show ?thesis by (simp add: init_attributes_def)
qed

text \<open>Witness for C3: \<^verbatim>\<open>Noise_IKpsk2_25519_ChaChaPoly_BLAKE2s\<close>, which requires one PSK,
  with two PSKs of 32 bytes, with a PSK of 7 bytes, with one PSK of 32 bytes, and with
  the empty list.\<close>

theorem psk_validation_witness:
  "(NoiseProtocol_init test_env (Bytes ''Noise_IKpsk2_25519_ChaChaPoly_BLAKE2s'')
      (Some [replicate 32 CHR ''k'', replicate 32 CHR ''j''])
      :: error + (string, string) NoiseProtocol)
     = Inl (BadPskCount 1 2)
   \<and> (NoiseProtocol_init test_env (Bytes ''Noise_IKpsk2_25519_ChaChaPoly_BLAKE2s'')
      (Some [replicate 32 CHR ''k'', replicate 7 CHR ''j''])
      :: error + (string, string) NoiseProtocol)
     = Inl InvalidPskLength
   \<and> (NoiseProtocol_init test_env (Bytes ''Noise_IKpsk2_25519_ChaChaPoly_BLAKE2s'')
      (Some [replicate 32 CHR ''k''])
      :: error + (string, string) NoiseProtocol)
     = Inr (init_attributes ''Noise_IKpsk2_25519_ChaChaPoly_BLAKE2s''
             \<lparr>map_pattern = \<lparr>psk_count = 0, one_way = False\<rparr>, map_dh = ''ED25519'',
              map_cipher = ''ChaCha20Cipher'', map_hash = ''BLAKE2sHash'',
              map_keypair = ''KeyPair25519''\<rparr> [str ''psk2'']
             \<lparr>psk_count = 1, one_way = False\<rparr> (Some [replicate 32 CHR ''k'']))
   \<and> (NoiseProtocol_init test_env (Bytes ''Noise_IKpsk2_25519_ChaChaPoly_BLAKE2s'')
      (Some []) :: error + (string, string) NoiseProtocol)
     = Inr (init_attributes ''Noise_IKpsk2_25519_ChaChaPoly_BLAKE2s''
             \<lparr>map_pattern = \<lparr>psk_count = 0, one_way = False\<rparr>, map_dh = ''ED25519'',
              map_cipher = ''ChaCha20Cipher'', map_hash = ''BLAKE2sHash'',
              map_keypair = ''KeyPair25519''\<rparr> [str ''psk2'']
             \<lparr>psk_count = 1, one_way = False\<rparr> (Some []))
   \<and> \<not> is_psk_handshake (init_attributes ''Noise_IKpsk2_25519_ChaChaPoly_BLAKE2s''
             \<lparr>map_pattern = \<lparr>psk_count = 0, one_way = False\<rparr>, map_dh = ''ED25519'',
              map_cipher = ''ChaCha20Cipher'', map_hash = ''BLAKE2sHash'',
              map_keypair = ''KeyPair25519''\<rparr> [str ''psk2'']
             \<lparr>psk_count = 1, one_way = False\<rparr> (Some []) :: (string, string) NoiseProtocol)"
proof -
  have len: "length ''Noise_IKpsk2_25519_ChaChaPoly_BLAKE2s'' \<le> MAX_PROTOCOL_NAME_LEN test_env"
    by (simp add: test_env_fields)
  have pat: "init_pattern test_env
      (map_pattern \<lparr>map_pattern = \<lparr>psk_count = 0, one_way = False\<rparr>, map_dh = ''ED25519'',
            map_cipher = ''ChaCha20Cipher'', map_hash = ''BLAKE2sHash'',
            map_keypair = ''KeyPair25519''\<rparr>) [str ''psk2'']
     = Inr \<lparr>psk_count = 1, one_way = False\<rparr>"
    by (simp add: init_pattern_IKpsk2)
  note v = psk_validation [OF len parse_IKpsk2 pat, where ?'b = string]
  show ?thesis
    using v [of "Some [replicate 32 CHR ''k'', replicate 32 CHR ''j'']"]
      v [of "Some [replicate 32 CHR ''k'', replicate 7 CHR ''j'']"]
      v [of "Some [replicate 32 CHR ''k'']"]
      v [of "Some []"]
    by (simp add: psk_list_def)
qed

text \<open>
  Claim C4, as stated: a non-empty PSK list of the wrong length fails with the count
  error even when it holds a PSK that is not 32 bytes long. It fails on the code: the
  length check of line 40 comes first, so two PSKs, one of 31 bytes, for a pattern
  that requires one give the length error.
\<close>

theorem bad_psk_length_hides_count_mismatch:
  "(NoiseProtocol_init test_env (Bytes ''Noise_IKpsk2_25519_ChaChaPoly_BLAKE2s'')
      (Some [replicate 32 CHR ''k'', replicate 31 CHR ''j''])
      :: error + (string, string) NoiseProtocol)
     = Inl InvalidPskLength
   \<and> InvalidPskLength \<noteq> BadPskCount 1 2"
  by (simp add: init_IKpsk2 psk_list_def)

text \<open>
  Claim C4, amended: for every non-empty PSK list whose length differs from the
  pattern's \<open>psk_count\<close>, construction (of a name that resolves) fails: with the count
  error when every PSK is exactly 32 bytes long, and with the length error when one
  is not.
\<close>

theorem psk_count_mismatch:
  assumes "length nm \<le> MAX_PROTOCOL_NAME_LEN env"
    and "parse_protocol_name env nm = Inr (mappings, mods)"
    and "init_pattern env (map_pattern mappings) mods = Inr pat"
    and "ps \<noteq> []"
    and "int (length ps) \<noteq> psk_count pat"
  shows "(NoiseProtocol_init env (Bytes nm) (Some ps) :: error + ('a, 'b) NoiseProtocol) =
     (if list_all (\<lambda>psk. length psk = 32) ps
      then Inl (BadPskCount (psk_count pat) (length ps))
      else Inl InvalidPskLength)"
  using init_after_resolution [OF assms(1-3), of "Some ps"] assms(4,5)
  by (auto simp add: psk_list_def list_ex_not_32 split: if_splits)

text \<open>Witness for C4: two PSKs for a pattern that requires one, all of 32 bytes and
  then one of 31.\<close>

theorem psk_count_mismatch_witness:
  "(NoiseProtocol_init test_env (Bytes ''Noise_IKpsk2_25519_ChaChaPoly_BLAKE2s'')
      (Some [replicate 32 CHR ''k'', replicate 32 CHR ''j''])
      :: error + (string, string) NoiseProtocol)
     = Inl (BadPskCount 1 2)
   \<and> (NoiseProtocol_init test_env (Bytes ''Noise_IKpsk2_25519_ChaChaPoly_BLAKE2s'')
      (Some [replicate 32 CHR ''k'', replicate 31 CHR ''j''])
      :: error + (string, string) NoiseProtocol)
     = Inl InvalidPskLength"
proof -
  have len: "length ''Noise_IKpsk2_25519_ChaChaPoly_BLAKE2s'' \<le> MAX_PROTOCOL_NAME_LEN test_env"
    by (simp add: test_env_fields)
  have pat: "init_pattern test_env
      (map_pattern \<lparr>map_pattern = \<lparr>psk_count = 0, one_way = False\<rparr>, map_dh = ''ED25519'',
            map_cipher = ''ChaCha20Cipher'', map_hash = ''BLAKE2sHash'',
            map_keypair = ''KeyPair25519''\<rparr>) [str ''psk2'']
     = Inr \<lparr>psk_count = 1, one_way = False\<rparr>"
    by (simp add: init_pattern_IKpsk2)
  note v = psk_count_mismatch [OF len parse_IKpsk2 pat, where ?'b = string]
  show ?thesis
    using v [of "[replicate 32 CHR ''k'', replicate 32 CHR ''j'']"]
      v [of "[replicate 32 CHR ''k'', replicate 31 CHR ''j'']"]
    by simp
qed

section \<open>Finalization\<close>

text \<open>
  Claim C2: on a descriptor over a one-way pattern whose handshake is complete (the
  handshake state holds the role \<open>i\<close>, the symmetric state the hash, and both
  transport cipher states are there), \<^verbatim>\<open>handshake_done\<close> returns and leaves one of
  the two slots, chosen by \<open>i\<close> alone: for the initiator \<open>cipher_state_encrypt\<close>
  stays and \<open>cipher_state_decrypt\<close> is deleted, for the responder the other way
  round. Reading the deleted slot raises \<^verbatim>\<open>AttributeError\<close>, which is not a
  \<^verbatim>\<open>ValueError\<close>.
\<close>

theorem handshake_done_one_way_keeps_one_slot:
  assumes "Pattern.one_way (pattern self)"
    and "handshake_state self = Populated i"
    and "symmetric_state self = Populated h"
    and "cipher_state_encrypt self = Some ce"
    and "cipher_state_decrypt self = Some cd"
  shows "handshake_done self =
           Inr (if i
                then self\<lparr>initiator := Some i, cipher_state_decrypt := None,
                          handshake_hash := Some h\<rparr>
                else self\<lparr>initiator := Some i, cipher_state_encrypt := None,
                          handshake_hash := Some h\<rparr>)
       \<and> get_cipher_state_encrypt (object_after (handshake_done self)) =
           (if i then Inr ce else Inl (AttributeError ''cipher_state_encrypt''))
       \<and> get_cipher_state_decrypt (object_after (handshake_done self)) =
           (if i then Inl (AttributeError ''cipher_state_decrypt'') else Inr cd)
       \<and> class_of (AttributeError ''cipher_state_encrypt'') = AttributeErrorClass
       \<and> class_of (AttributeError ''cipher_state_decrypt'') = AttributeErrorClass"
  using assms by (simp add: done_defs)

text \<open>Witness for C2: the one-way descriptor of \<^verbatim>\<open>Noise_N_25519_AESGCM_SHA256\<close> as
  initiator and as responder.\<close>

theorem handshake_done_one_way_keeps_one_slot_witness:
  "handshake_done (test_engine_done True ''h0'' test_N) =
     Inr ((test_engine_done True ''h0'' test_N)
            \<lparr>initiator := Some True, cipher_state_decrypt := None,
             handshake_hash := Some ''h0''\<rparr>)
   \<and> get_cipher_state_encrypt
        (object_after (handshake_done (test_engine_done True ''h0'' test_N))) =
       Inr (Populated ''c1'')
   \<and> get_cipher_state_decrypt
        (object_after (handshake_done (test_engine_done True ''h0'' test_N))) =
       Inl (AttributeError ''cipher_state_decrypt'')
   \<and> handshake_done (test_engine_done False ''h0'' test_N) =
     Inr ((test_engine_done False ''h0'' test_N)
            \<lparr>initiator := Some False, cipher_state_encrypt := None,
             handshake_hash := Some ''h0''\<rparr>)
   \<and> get_cipher_state_encrypt
        (object_after (handshake_done (test_engine_done False ''h0'' test_N))) =
       Inl (AttributeError ''cipher_state_encrypt'')
   \<and> get_cipher_state_decrypt
        (object_after (handshake_done (test_engine_done False ''h0'' test_N))) =
       Inr (Populated ''c2'')"
  using handshake_done_one_way_keeps_one_slot
          [of "test_engine_done True ''h0'' test_N" True "''h0''" "Populated ''c1''"
              "Populated ''c2''"]
        handshake_done_one_way_keeps_one_slot
          [of "test_engine_done False ''h0'' test_N" False "''h0''" "Populated ''c1''"
              "Populated ''c2''"]
  by (simp add: test_engine_done_def test_N_def get_cipher_state_encrypt_def
      get_cipher_state_decrypt_def object_after_def)

text \<open>
  Claim C7: on a descriptor whose handshake is complete, \<^verbatim>\<open>handshake_done\<close> returns
  with \<open>initiator\<close> set to the role held by the handshake state and \<open>handshake_hash\<close>
  set to the hash held by the symmetric state; and \<open>handshake_hash\<close> keeps that value
  through any number of later calls of \<^verbatim>\<open>handshake_done\<close>, the one operation of this
  class on a constructed object, whether they return or raise.
\<close>

theorem handshake_done_copies_role_and_hash:
  assumes "handshake_state self = Populated i"
    and "symmetric_state self = Populated h"
    and "cipher_state_encrypt self \<noteq> None"
    and "cipher_state_decrypt self \<noteq> None"
  shows "\<exists>self'. handshake_done self = Inr self'
           \<and> initiator self' = Some i
           \<and> handshake_hash self' = Some h
           \<and> (\<forall>n. handshake_hash (((\<lambda>s. object_after (handshake_done s)) ^^ n) self')
                     = Some h)"
proof -
  let ?self' = "(if Pattern.one_way (pattern self)
           then (if i then self\<lparr>initiator := Some i, cipher_state_decrypt := None\<rparr>
                 else self\<lparr>initiator := Some i, cipher_state_encrypt := None\<rparr>)
           else self\<lparr>initiator := Some i\<rparr>)\<lparr>handshake_hash := Some h\<rparr>"
  have d: "handshake_done self = Inr ?self'"
    using assms by (rule handshake_done_completed)
  have f: "initiator ?self' = Some i" "handshake_hash ?self' = Some h"
      "symmetric_state ?self' = Populated h"
    using assms(2) by simp_all
  from f(2,3) have "\<forall>n. handshake_hash (((\<lambda>s. object_after (handshake_done s)) ^^ n) ?self')
                     = Some h"
    by (simp add: hash_kept_iterated)
  with d f show ?thesis by blast
qed

text \<open>Witness for C7: the two-way descriptor of \<^verbatim>\<open>Noise_XX_25519_AESGCM_SHA256\<close> as
  responder.\<close>

theorem handshake_done_copies_role_and_hash_witness:
  "\<exists>self'. handshake_done (test_engine_done False ''h0'' test_XX) = Inr self'
           \<and> initiator self' = Some False
           \<and> handshake_hash self' = Some ''h0''
           \<and> (\<forall>n. handshake_hash (((\<lambda>s. object_after (handshake_done s)) ^^ n) self')
                     = Some ''h0'')"
  using handshake_done_copies_role_and_hash
          [of "test_engine_done False ''h0'' test_XX" False "''h0''"]
  by (simp add: test_engine_done_def)

text \<open>
  Claim C8, as stated: a second call of \<^verbatim>\<open>handshake_done\<close> is rejected with an error,
  for one-way and two-way patterns alike. It fails on the code for a two-way pattern:
  nothing is deleted there, and the second call returns, leaving the object as the
  first call left it.
\<close>

theorem second_handshake_done_two_way_repeats:
  "handshake_done (test_engine_done True ''h0'' test_XX) =
     Inr ((test_engine_done True ''h0'' test_XX)
            \<lparr>initiator := Some True, handshake_hash := Some ''h0''\<rparr>)
   \<and> handshake_done ((test_engine_done True ''h0'' test_XX)
            \<lparr>initiator := Some True, handshake_hash := Some ''h0''\<rparr>) =
     Inr ((test_engine_done True ''h0'' test_XX)
            \<lparr>initiator := Some True, handshake_hash := Some ''h0''\<rparr>)"
  by (simp add: handshake_done_def test_engine_done_def test_XX_def)

text \<open>
  Claim C8, amended: after a call of \<^verbatim>\<open>handshake_done\<close> that returned, a second call
  on the same object raises \<^verbatim>\<open>AttributeError\<close> when the pattern is one-way (the slot
  it deletes is gone) and leaves the object unchanged; when the pattern is two-way it
  is not rejected: it returns, and the object is unchanged.
\<close>

theorem second_handshake_done:
  assumes "handshake_done self = Inr self'"
  shows "handshake_done self' =
     (if Pattern.one_way (pattern self')
      then Inl (AttributeError (if initiator self' = Some True
                                then ''cipher_state_decrypt''
                                else ''cipher_state_encrypt''), self')
      else Inr self')"
  using assms
  by (auto simp add: done_defs Let_def split: obj.splits option.splits if_splits)

text \<open>Witness for C8: the one-way descriptor, finalized twice as initiator.\<close>

theorem second_handshake_done_witness:
  "handshake_done (test_engine_done True ''h0'' test_N) =
     Inr ((test_engine_done True ''h0'' test_N)
            \<lparr>initiator := Some True, cipher_state_decrypt := None,
             handshake_hash := Some ''h0''\<rparr>)
   \<and> handshake_done ((test_engine_done True ''h0'' test_N)
            \<lparr>initiator := Some True, cipher_state_decrypt := None,
             handshake_hash := Some ''h0''\<rparr>) =
     Inl (AttributeError ''cipher_state_decrypt'',
          (test_engine_done True ''h0'' test_N)
            \<lparr>initiator := Some True, cipher_state_decrypt := None,
             handshake_hash := Some ''h0''\<rparr>)"
proof -
  have first: "handshake_done (test_engine_done True ''h0'' test_N) =
     Inr ((test_engine_done True ''h0'' test_N)
            \<lparr>initiator := Some True, cipher_state_decrypt := None,
             handshake_hash := Some ''h0''\<rparr>)"
    by (simp add: handshake_done_def del_cipher_state_decrypt_def test_engine_done_def
        test_N_def)
  show ?thesis
    using first second_handshake_done [OF first]
    by (simp add: test_engine_done_def test_N_def)
qed

text \<open>
  Claim C6 says that the attribute \<open>one_way\<close> of a constructed descriptor is true
  exactly when its resolved pattern is one-way, after construction and after
  finalization. The code does not do so: line 54 sets the attribute to \<^verbatim>\<open>False\<close>
  next to \<open>initiator\<close> and \<open>handshake_hash\<close>, and \<^verbatim>\<open>handshake_done\<close> fills in
  those two but never \<open>one_way\<close>. So the attribute is false on every constructed
  descriptor, and \<^verbatim>\<open>handshake_done\<close> leaves it and the pattern as they are, also
  when the pattern is one-way.
\<close>

theorem one_way_field_stays_False:
  assumes "NoiseProtocol_init env nm psks_arg = Inr self"
  shows "\<not> one_way self
       \<and> (\<forall>self'. one_way (object_after (handshake_done self')) = one_way self'
                \<and> pattern (object_after (handshake_done self')) = pattern self')"
proof -
  have "\<not> one_way self"
    using assms
    by (auto simp add: NoiseProtocol_init_def init_attributes_def
        split: protocol_name_arg.splits if_splits sum.splits option.splits prod.splits)
  then show ?thesis by (simp add: handshake_done_frame)
qed

text \<open>
  Witness for C6, at the failing input \<^verbatim>\<open>Noise_N_25519_AESGCM_SHA256\<close>: the pattern
  \<^verbatim>\<open>N\<close> of the descriptor is one-way, and the attribute \<open>one_way\<close> of the descriptor
  is false after construction and after \<^verbatim>\<open>handshake_done\<close>.
\<close>

theorem one_way_field_stays_False_witness:
  "NoiseProtocol_init test_env (Bytes ''Noise_N_25519_AESGCM_SHA256'') None = Inr test_N
   \<and> Pattern.one_way (pattern test_N)
   \<and> \<not> one_way test_N
   \<and> \<not> one_way (object_after (handshake_done (test_engine_done True ''h0'' test_N)))
   \<and> Pattern.one_way
        (pattern (object_after (handshake_done (test_engine_done True ''h0'' test_N))))"
proof -
  note t = one_way_field_stays_False [OF init_N]
  have n: "\<not> one_way test_N"
    using t [THEN conjunct1] .
  have g: "one_way (object_after (handshake_done (test_engine_done True ''h0'' test_N)))
        = one_way (test_engine_done True ''h0'' test_N)
      \<and> pattern (object_after (handshake_done (test_engine_done True ''h0'' test_N)))
        = pattern (test_engine_done True ''h0'' test_N)"
    using t [THEN conjunct2, THEN spec, of "test_engine_done True ''h0'' test_N"] .
  have e: "one_way (test_engine_done True ''h0'' test_N) = one_way test_N"
    "pattern (test_engine_done True ''h0'' test_N) = pattern test_N"
    by (simp_all add: test_engine_done_def)
  have p: "Pattern.one_way (pattern test_N)"
    by (simp add: test_N_def)
  show ?thesis
    using init_N n g e p by simp
qed

end
